theory Spec2Isabelle
  imports Main
begin

section \<open>Exceptions of the extension API as values\<close>

text \<open>
  The module \<^verbatim>\<open>intelliflow/api_ext.py\<close> raises Python exceptions. Each raise site of the
  modelled functions is one constructor below; the constructor carries the values the
  source interpolates into the message. \<open>exc_class_of\<close> gives the Python exception class.
\<close>

datatype exc_class = ValueError | TypeError | IndexError | NotImplementedError | RuntimeFailure

datatype error =
    DataAmbiguous string nat
    \<comment> \<open>"Cannot resolve DataNode! Application::data API cannot be used when the ID maps to
        multiple data nodes! Entity id: .., type: <data>, # of mapped entities: .."\<close>
  | TimerAmbiguous string nat
    \<comment> \<open>"Application::timer API cannot be used when the ID maps to multiple nodes of same type!"\<close>
  | MetricAmbiguous string nat
    \<comment> \<open>"Application::metric API cannot be used when the ID (and sub_dimensions) map to multiple metric nodes!"\<close>
  | AlarmAmbiguous string nat
    \<comment> \<open>"Application::alarm API cannot be used when the ID (and alarm_type) map to multiple alarm nodes!"\<close>
  | WrongSliceTypes
    \<comment> \<open>"Wrong types in <slice> (..) for Application::__getitem__!"\<close>
  | WrongKeyType
    \<comment> \<open>"Please provide a <str> or a <slice> .. for Application::__getitem__ API!"\<close>
  | NodeNotFound string string
    \<comment> \<open>"Cannot find any active node with ID '..' within the application '..'."\<close>
  | CannotLinkDimension string "string option" string
    \<comment> \<open>"Cannot link unmaterialized dimension .. from dependent input .. to output .."\<close>
  | NoComputeTargets string
    \<comment> \<open>"Cannot create data node .. without compute targets!"\<close>
  | WrongInputType
    \<comment> \<open>"Wrong input type .. for Application::load_data(Union[MarshalingView, MarshalerNode])."\<close>
  | InvalidLimit
    \<comment> \<open>"Please provide a positive value of type 'int' as 'limit' parameter to
        Application::load_data API"\<close>
  | InvalidFormat string
    \<comment> \<open>raised by the enum constructor \<^verbatim>\<open>DataFrameFormat(format.upper())\<close>\<close>
  | NotMaterialized
    \<comment> \<open>"Can load materialized data nodes or views only!"\<close>
  | NodeTypeNotSupported
    \<comment> \<open>"Node type .. is not supported for Application::load_data API!"\<close>
  | NoneArithmetic
    \<comment> \<open>Python's TypeError for \<^verbatim>\<open>None + 1\<close> and \<^verbatim>\<open>None - 0\<close>\<close>
  | ListIndexOutOfRange
    \<comment> \<open>Python's IndexError for \<^verbatim>\<open>xs[0]\<close> on an empty list\<close>
  | PandasFormatNotSupported string
    \<comment> \<open>"Loading .. with Pandas not supported yet!"\<close>
  | NotInDevContext string
    \<comment> \<open>"Data node .. does not exist in the current development context! .."\<close>
  | CollaboratorFailure string
    \<comment> \<open>an exception raised inside a collaborator (node creation, execution, storage)\<close>

fun exc_class_of :: "error \<Rightarrow> exc_class" where
  "exc_class_of NoneArithmetic = TypeError"
| "exc_class_of ListIndexOutOfRange = IndexError"
| "exc_class_of (PandasFormatNotSupported f) = NotImplementedError"
| "exc_class_of (CollaboratorFailure m) = RuntimeFailure"
| "exc_class_of e = ValueError"

section \<open>Node resolution by id\<close>

text \<open>
  The getters \<^verbatim>\<open>get_data\<close>, \<^verbatim>\<open>get_timer\<close>, \<^verbatim>\<open>get_metric\<close> and \<^verbatim>\<open>get_alarm\<close> belong to the
  base class \<^verbatim>\<open>Application\<close>; here they are fields of the application, each returning the
  list of marshaler nodes mapped to an id. A marshaler node is an object without a
  truth-value method, so \<^verbatim>\<open>if marshaler:\<close> tests for \<^verbatim>\<open>None\<close> only.
\<close>

datatype alarm_type = AlarmType_ALL | AlarmType_Other string

type_synonym sub_dimension_map = "(string \<times> string) list"

record 'n application =
  app_id :: string
  get_data :: "string \<Rightarrow> 'n list"
  get_timer :: "string \<Rightarrow> 'n list"
  get_metric :: "string \<Rightarrow> sub_dimension_map option \<Rightarrow> 'n list"
  get_alarm :: "string \<Rightarrow> alarm_type \<Rightarrow> 'n list"

text \<open>\<^verbatim>\<open>ApplicationExt.data\<close>: a function body that ends without \<^verbatim>\<open>return\<close> gives \<^verbatim>\<open>None\<close>.\<close>

definition data :: "'n application \<Rightarrow> string \<Rightarrow> error + 'n option" where
  "data app data_id =
     (let marshalers = get_data app data_id in
      if marshalers \<noteq> [] then
        (if length marshalers > 1 then Inl (DataAmbiguous data_id (length marshalers))
         else Inr (Some (marshalers ! 0)))
      else Inr None)"

definition timer :: "'n application \<Rightarrow> string \<Rightarrow> error + 'n option" where
  "timer app timer_id =
     (let marshalers = get_timer app timer_id in
      if marshalers \<noteq> [] then
        (if length marshalers > 1 then Inl (TimerAmbiguous timer_id (length marshalers))
         else Inr (Some (marshalers ! 0)))
      else Inr None)"

definition metric :: "'n application \<Rightarrow> string \<Rightarrow> sub_dimension_map option \<Rightarrow> error + 'n option" where
  "metric app metric_id sub_dimensions =
     (let marshalers = get_metric app metric_id sub_dimensions in
      if marshalers \<noteq> [] then
        (if length marshalers > 1 then Inl (MetricAmbiguous metric_id (length marshalers))
         else Inr (Some (marshalers ! 0)))
      else Inr None)"

definition alarm :: "'n application \<Rightarrow> string \<Rightarrow> alarm_type \<Rightarrow> error + 'n option" where
  "alarm app alarm_id atype =
     (let marshalers = get_alarm app alarm_id atype in
      if marshalers \<noteq> [] then
        (if length marshalers > 1 then Inl (AlarmAmbiguous alarm_id (length marshalers))
         else Inr (Some (marshalers ! 0)))
      else Inr None)"

text \<open>
  The argument of \<^verbatim>\<open>__getitem__\<close>: a string, a slice (its \<^verbatim>\<open>start\<close> is a string or is not; its
  \<^verbatim>\<open>stop\<close> is a sub-dimension map, an alarm type or something else), or any other object.
\<close>

datatype resolver_param =
    SubDimensions sub_dimension_map
  | AlarmTypeParam alarm_type
  | OtherParam

datatype getitem_arg =
    ArgStr string
  | ArgSlice "string option" resolver_param
  | ArgOther

text \<open>
  \<^verbatim>\<open>ApplicationExt.__getitem__\<close>. The result type keeps Python's implicit \<^verbatim>\<open>None\<close> as a
  possible return value, so that its absence is a property and not a matter of typing.
\<close>

definition getitem_not_found :: "'n application \<Rightarrow> string \<Rightarrow> error + 'n option" where
  "getitem_not_found app entity_id = Inl (NodeNotFound entity_id (app_id app))"

fun getitem :: "'n application \<Rightarrow> getitem_arg \<Rightarrow> error + 'n option" where
  "getitem app (ArgStr entity_id) =
     (case data app entity_id of
        Inl e \<Rightarrow> Inl e
      | Inr (Some m) \<Rightarrow> Inr (Some m)
      | Inr None \<Rightarrow>
     (case timer app entity_id of
        Inl e \<Rightarrow> Inl e
      | Inr (Some m) \<Rightarrow> Inr (Some m)
      | Inr None \<Rightarrow>
     (case metric app entity_id None of
        Inl e \<Rightarrow> Inl e
      | Inr (Some m) \<Rightarrow> Inr (Some m)
      | Inr None \<Rightarrow>
     (case alarm app entity_id AlarmType_ALL of
        Inl e \<Rightarrow> Inl e
      | Inr (Some m) \<Rightarrow> Inr (Some m)
      | Inr None \<Rightarrow> getitem_not_found app entity_id))))"
| "getitem app (ArgSlice start resolver) =
     (case (start, resolver) of
        (None, _) \<Rightarrow> Inl WrongSliceTypes
      | (Some _, OtherParam) \<Rightarrow> Inl WrongSliceTypes
      | (Some entity_id, SubDimensions sd) \<Rightarrow>
          (case metric app entity_id (Some sd) of
             Inl e \<Rightarrow> Inl e
           | Inr (Some m) \<Rightarrow> Inr (Some m)
           | Inr None \<Rightarrow> getitem_not_found app entity_id)
      | (Some entity_id, AlarmTypeParam t) \<Rightarrow>
          (case alarm app entity_id t of
             Inl e \<Rightarrow> Inl e
           | Inr (Some m) \<Rightarrow> Inr (Some m)
           | Inr None \<Rightarrow> getitem_not_found app entity_id))"
| "getitem app ArgOther = Inl WrongKeyType"

subsection \<open>Example applications\<close>

text \<open>
  An application in which the id \<open>x\<close> maps to the given data, timer, metric and alarm nodes
  (nodes are numbered) and every other id maps to nothing.
\<close>

definition app_of :: "nat list \<Rightarrow> nat list \<Rightarrow> nat list \<Rightarrow> nat list \<Rightarrow> nat application" where
  "app_of ds ts ms als =
     \<lparr> app_id = ''app'',
       get_data = (\<lambda>i. if i = ''x'' then ds else []),
       get_timer = (\<lambda>i. if i = ''x'' then ts else []),
       get_metric = (\<lambda>i s. if i = ''x'' then ms else []),
       get_alarm = (\<lambda>i t. if i = ''x'' then als else []) \<rparr>"

section \<open>Default output dimension spec and links of a new data node\<close>

text \<open>
  Modelled from the spec: signals, dimension specs, dimension filters and dimension
  variants, which are classes of the core library (\<^verbatim>\<open>Signal\<close>, \<^verbatim>\<open>DimensionSpec\<close>,
  \<^verbatim>\<open>DimensionFilter\<close>, \<^verbatim>\<open>DimensionVariant\<close>). A signal is dependent or independent and has
  an alias. Its dimension spec is represented by its dimensions in the order in which
  \<^verbatim>\<open>get_flattened_dimension_map\<close> enumerates them (declaration order; the names are the keys
  of that map), its dimension filter by the variant bound to each dimension name. A variant
  has a value and is material (bound to a concrete literal) or not. A dimension object is
  true in a condition.
\<close>

record dimension =
  dim_name :: string
  dim_type :: string

record dimension_variant =
  variant_value :: string
  is_material_value :: bool

record signal =
  signal_alias :: "string option"
  is_dependent :: bool
  dimension_spec :: "dimension list"
  dimension_filter_spec :: "(string \<times> dimension_variant) list"

text \<open>\<^verbatim>\<open>Signal.clone(alias)\<close>: the same signal under another alias.\<close>

definition clone :: "signal \<Rightarrow> string option \<Rightarrow> signal" where
  "clone s a = s\<lparr>signal_alias := a\<rparr>"

definition get_flattened_dimension_map :: "dimension list \<Rightarrow> (string \<times> dimension) list" where
  "get_flattened_dimension_map spec = map (\<lambda>d. (dim_name d, d)) spec"

definition find_dimension_by_name :: "dimension list \<Rightarrow> string \<Rightarrow> dimension option" where
  "find_dimension_by_name spec n = find (\<lambda>d. dim_name d = n) spec"

definition find_variant_by_name :: "(string \<times> dimension_variant) list \<Rightarrow> string \<Rightarrow> dimension_variant option" where
  "find_variant_by_name flt n = map_of flt n"

text \<open>
  The right-hand side of an output link is a \<^verbatim>\<open>SignalDimensionTuple\<close> (a live reference to a
  dimension of an input signal) or a literal value. The mapper function of every inferred
  link is \<^verbatim>\<open>None\<close>, the identity.
\<close>

datatype link_source =
    SignalDimensionTuple signal dimension
  | LiteralValue string

type_synonym mapper = string

type_synonym dim_link = "string \<times> mapper option \<times> link_source"

datatype compute_targets = TargetCode string | TargetDescriptors "string list"

record create_call =
  call_is_update :: bool
  call_id :: string
  call_inputs :: "signal list"
  call_output_dimension_spec :: "dimension list"
  call_output_dim_links :: "dim_link list"
  call_compute_targets :: "string list"

text \<open>
  Lines 993-1002: the first input is independent, every dimension links to it. The names
  come from the spec in which they are looked up, so the lookup finds a dimension.
\<close>

definition independent_links :: "signal \<Rightarrow> dim_link list" where
  "independent_links output_signal =
     map (\<lambda>(n, d). (n, None,
            SignalDimensionTuple output_signal
              (the (find_dimension_by_name (dimension_spec output_signal) n))))
         (get_flattened_dimension_map (dimension_spec output_signal))"

text \<open>Lines 1019-1024: the scan of the independent inputs for a dimension of that name.\<close>

fun scan_independent :: "signal list \<Rightarrow> string \<Rightarrow> dim_link option" where
  "scan_independent [] n = None"
| "scan_independent (other_indep_input # rest) n =
     (case find_dimension_by_name (dimension_spec other_indep_input) n of
        Some other_dim \<Rightarrow>
          Some (n, None, SignalDimensionTuple (clone other_indep_input None) other_dim)
      | None \<Rightarrow> scan_independent rest n)"

text \<open>
  Lines 1009-1030, the body of the loop over the dimensions of a dependent first input.
  A dimension the filter does not bind makes \<^verbatim>\<open>dim_variant\<close> \<^verbatim>\<open>None\<close>, and the method call
  on it fails.
\<close>

definition dependent_link ::
  "string \<Rightarrow> signal \<Rightarrow> signal \<Rightarrow> signal list \<Rightarrow> string \<Rightarrow> error + dim_link" where
  "dependent_link node_id first_signal output_signal independent_signals n =
     (case find_variant_by_name (dimension_filter_spec output_signal) n of
        None \<Rightarrow> Inl (CollaboratorFailure ''NoneType has no attribute is_material_value'')
      | Some dim_variant \<Rightarrow>
          if is_material_value dim_variant then Inr (n, None, LiteralValue (variant_value dim_variant))
          else (case scan_independent independent_signals n of
                  None \<Rightarrow> Inl (CannotLinkDimension n (signal_alias first_signal) node_id)
                | Some link \<Rightarrow> Inr link))"

fun dependent_links ::
  "string \<Rightarrow> signal \<Rightarrow> signal \<Rightarrow> signal list \<Rightarrow> string list \<Rightarrow> error + dim_link list" where
  "dependent_links node_id first_signal output_signal independent_signals [] = Inr []"
| "dependent_links node_id first_signal output_signal independent_signals (n # ns) =
     (case dependent_link node_id first_signal output_signal independent_signals n of
        Inl e \<Rightarrow> Inl e
      | Inr link \<Rightarrow>
          (case dependent_links node_id first_signal output_signal independent_signals ns of
             Inl e \<Rightarrow> Inl e
           | Inr links \<Rightarrow> Inr (link # links)))"

text \<open>
  Lines 975-1034: the defaulting of \<^verbatim>\<open>output_dimension_spec\<close> and \<^verbatim>\<open>output_dim_links\<close>. The
  inputs are the signals of the declared inputs in declaration order (for a dictionary, its
  insertion order).
\<close>

definition resolve_output ::
  "string \<Rightarrow> signal list \<Rightarrow> dimension list option \<Rightarrow> dim_link list option
     \<Rightarrow> error + (dimension list \<times> dim_link list option)" where
  "resolve_output node_id inputs output_dimension_spec output_dim_links =
     (case output_dimension_spec of
        Some spec \<Rightarrow> Inr (spec, output_dim_links)
      | None \<Rightarrow>
          (case inputs of
             [] \<Rightarrow> Inr ([], Some [])
           | first_signal # _ \<Rightarrow>
               if output_dim_links = None \<or> output_dim_links = Some [] then
                 (let output_signal = clone first_signal None in
                  if \<not> is_dependent output_signal then
                    Inr (dimension_spec first_signal, Some (independent_links output_signal))
                  else
                    (case dependent_links node_id first_signal output_signal
                            (filter (\<lambda>input. \<not> is_dependent input) inputs)
                            (map fst (get_flattened_dimension_map (dimension_spec output_signal))) of
                       Inl e \<Rightarrow> Inl e
                     | Inr links \<Rightarrow> Inr (dimension_spec first_signal, Some links)))
               else Inr (dimension_spec first_signal, output_dim_links)))"

text \<open>
  \<^verbatim>\<open>AWSApplication._create_or_update_data_with_defaults\<close> up to its call of the base class,
  whose arguments are the result. A code string becomes one default Glue batch compute.
\<close>

definition create_or_update_data_with_defaults ::
  "bool \<Rightarrow> string \<Rightarrow> signal list \<Rightarrow> dimension list option \<Rightarrow> dim_link list option
     \<Rightarrow> compute_targets option \<Rightarrow> error + create_call" where
  "create_or_update_data_with_defaults is_update node_id inputs output_dimension_spec
       output_dim_links targets =
     (case resolve_output node_id inputs output_dimension_spec output_dim_links of
        Inl e \<Rightarrow> Inl e
      | Inr (spec, links) \<Rightarrow>
          if targets = None \<or> targets = Some (TargetCode []) \<or> targets = Some (TargetDescriptors [])
          then Inl (NoComputeTargets node_id)
          else Inr \<lparr> call_is_update = is_update, call_id = node_id, call_inputs = inputs,
                     call_output_dimension_spec = spec,
                     call_output_dim_links = (case links of None \<Rightarrow> [] | Some ls \<Rightarrow> ls),
                     call_compute_targets =
                       (case targets of
                          Some (TargetCode code) \<Rightarrow> [code]
                        | Some (TargetDescriptors ds) \<Rightarrow> ds
                        | None \<Rightarrow> []) \<rparr>)"

definition create_data ::
  "string \<Rightarrow> signal list \<Rightarrow> dimension list option \<Rightarrow> dim_link list option
     \<Rightarrow> compute_targets option \<Rightarrow> error + create_call" where
  "create_data = create_or_update_data_with_defaults False"



subsection \<open>The resolver as the specification words it\<close>

text \<open>
  The specification's reading of link inference for a dependent first input: a dimension
  with a material value is a literal copy; any other dimension links to the first
  independent input, in declaration order, that exposes a dimension of that name; a
  dimension with neither is unlinkable. These definitions follow the specification and are
  compared with \<open>resolve_output\<close>, which follows the source.
\<close>

definition spec_exposing_input :: "signal list \<Rightarrow> string \<Rightarrow> signal option" where
  "spec_exposing_input inputs n =
     find (\<lambda>s. \<not> is_dependent s \<and> find_dimension_by_name (dimension_spec s) n \<noteq> None) inputs"

definition spec_unlinkable :: "signal \<Rightarrow> signal list \<Rightarrow> string \<Rightarrow> bool" where
  "spec_unlinkable first_signal inputs n =
     (case find_variant_by_name (dimension_filter_spec first_signal) n of
        None \<Rightarrow> False
      | Some v \<Rightarrow> \<not> is_material_value v \<and> spec_exposing_input inputs n = None)"

definition spec_default_link :: "signal \<Rightarrow> signal list \<Rightarrow> string \<Rightarrow> dim_link" where
  "spec_default_link first_signal inputs n =
     (n, None,
      (case find_variant_by_name (dimension_filter_spec first_signal) n of
         Some v \<Rightarrow>
           if is_material_value v then LiteralValue (variant_value v)
           else (case spec_exposing_input inputs n of
                   Some s \<Rightarrow> SignalDimensionTuple (clone s None)
                               (the (find_dimension_by_name (dimension_spec s) n))
                 | None \<Rightarrow> LiteralValue [])
       | None \<Rightarrow> LiteralValue []))"

subsection \<open>Example signals\<close>

text \<open>
  A dependent signal over \<open>region\<close> and \<open>day\<close> with \<open>region\<close> bound to the literal \<open>NA\<close>, and
  two independent signals, one exposing \<open>region\<close> and one exposing \<open>day\<close>.
\<close>

definition ex_region :: dimension where "ex_region = \<lparr>dim_name = ''region'', dim_type = ''STRING''\<rparr>"
definition ex_day :: dimension where "ex_day = \<lparr>dim_name = ''day'', dim_type = ''DATETIME''\<rparr>"

definition ex_dependent :: signal where
  "ex_dependent = \<lparr>signal_alias = Some ''ref'', is_dependent = True,
     dimension_spec = [ex_region, ex_day],
     dimension_filter_spec = [(''region'', \<lparr>variant_value = ''NA'', is_material_value = True\<rparr>),
                              (''day'', \<lparr>variant_value = ''*'', is_material_value = False\<rparr>)]\<rparr>"

definition ex_regional :: signal where
  "ex_regional = \<lparr>signal_alias = Some ''regions'', is_dependent = False,
     dimension_spec = [ex_region],
     dimension_filter_spec = [(''region'', \<lparr>variant_value = ''*'', is_material_value = False\<rparr>)]\<rparr>"

definition ex_daily :: signal where
  "ex_daily = \<lparr>signal_alias = Some ''daily'', is_dependent = False,
     dimension_spec = [ex_day],
     dimension_filter_spec = [(''day'', \<lparr>variant_value = ''*'', is_material_value = False\<rparr>)]\<rparr>"


section \<open>Loading materialized data\<close>

text \<open>
  \<^verbatim>\<open>ApplicationExt.load_data\<close> is a generator. Its run is the list of what it does, in order:
  the diagnostics it logs, the partitions it pulls from the partition iterator, the frames
  it yields, and the exception that ends it, if any. A consumer that asks for one frame
  only sees the run up to the first \<open>Yield\<close>. Of the log lines, the two diagnostics of an
  internal output are part of the run; the others do not change it, unless formatting one
  fails.
\<close>

type_synonym bytes = string

datatype 'r frame =
    NoneFrame
  | Frame "'r list"
  | RawPartition string bytes

datatype diagnostic =
    CheckingExistence string string
    \<comment> \<open>"Checking the existence of output for .. on dimension values: .."\<close>
  | OutputAbsent string string
    \<comment> \<open>"Input .. does not have the output for the dimension values: .."\<close>

datatype 'r event =
    Log diagnostic
  | Pull string
  | Yield "'r frame"
  | Raise error

text \<open>
  The \<^verbatim>\<open>limit\<close> argument is any Python object. \<^verbatim>\<open>bool\<close> is a subclass of \<^verbatim>\<open>int\<close>, so
  \<^verbatim>\<open>isinstance(True, int)\<close> holds and \<^verbatim>\<open>True\<close> counts as 1. In line 447 the test
  \<^verbatim>\<open>not isinstance(limit, int) or limit <= 0\<close> compares the limit only when it is an integer.
\<close>

datatype py_value = PyNone | PyInt int | PyBool bool | PyOther string

fun isinstance_int :: "py_value \<Rightarrow> bool" where
  "isinstance_int (PyInt n) = True"
| "isinstance_int (PyBool b) = True"
| "isinstance_int v = False"

fun int_value :: "py_value \<Rightarrow> int" where
  "int_value (PyInt n) = n"
| "int_value (PyBool b) = (if b then 1 else 0)"
| "int_value v = 0"

fun limit_of :: "py_value \<Rightarrow> int option" where
  "limit_of PyNone = None"
| "limit_of v = Some (int_value v)"

datatype DataFrameFormat = SPARK | PANDAS | ORIGINAL

text \<open>
  The \<^verbatim>\<open>format\<close> argument: \<^verbatim>\<open>None\<close> or the empty string (no format), a string or member
  whose upper-cased value is one of the three members, or any other string, which the
  enum constructor rejects.
\<close>

datatype format_arg = FormatNone | Format DataFrameFormat | FormatInvalid string

datatype node_bound = InternalDataNode | ExternalDataNode | OtherNode

datatype output_arg = MarshalingView node_bound | MarshalerNode node_bound | OtherObject

fun bound_of :: "output_arg \<Rightarrow> node_bound" where
  "bound_of (MarshalingView b) = b"
| "bound_of (MarshalerNode b) = b"
| "bound_of OtherObject = OtherNode"

datatype data_format = CSV | PARQUET | JSON | OtherFormat string

text \<open>
  What the collaborators answer during one call: the data id and the rendered dimension
  values of the materialized output, the path \<^verbatim>\<open>poll\<close> returns (\<^verbatim>\<open>None\<close> when the output is
  absent), whether the filter is material, the partitions the partition iterator yields
  (\<^verbatim>\<open>storage.load_internal\<close> or \<^verbatim>\<open>_load_external_data\<close>; the iterator is taken to end
  without raising), the access spec's format and
  header flag, and the decoders of the csv module and of pandas applied to a partition's
  bytes with the access spec's encoding and delimiter. \<open>env_pd_read_csv\<close> gives all data
  rows of a partition; \<open>env_pd_read_parquet\<close> is \<open>None\<close> where pandas raises \<^verbatim>\<open>ValueError\<close>.
  The Spark branch (lines 553-637) runs inside the Spark runtime and is a parameter.
\<close>

record 'r load_env =
  env_data_id :: string
  env_dimension_values :: string
  env_poll_path :: "string option"
  env_is_material :: bool
  env_data_it :: "(string \<times> bytes) list"
  env_data_format :: data_format
  env_data_header_exists :: bool
  env_csv_reader :: "bytes \<Rightarrow> 'r list"
  env_pd_read_csv :: "bytes \<Rightarrow> 'r list"
  env_pd_read_parquet :: "bytes \<Rightarrow> 'r list option"
  env_pd_read_json :: "bytes \<Rightarrow> 'r list"
  env_spark_branch :: "'r event list"

text \<open>
  In the loops below the payload of a partition, \<^verbatim>\<open>data\<close> in the source, is \<open>data_bytes\<close>,
  since \<open>data\<close> is the node lookup; a payload is skipped when it is empty. \<open>Pull\<close> carries
  the physical path of the partition pulled.

  Python's \<^verbatim>\<open>xs[:k]\<close>: a negative \<open>k\<close> counts from the end, and the bounds are clipped.
\<close>

definition py_slice_to :: "int \<Rightarrow> 'a list \<Rightarrow> 'a list" where
  "py_slice_to k xs = (if 0 \<le> k then take (nat k) xs else take (nat (int (length xs) + k)) xs)"

subsection \<open>The pandas branch, lines 497-552\<close>

definition pandas_read :: "'r load_env \<Rightarrow> int option \<Rightarrow> int \<Rightarrow> bytes \<Rightarrow> error + 'r list option" where
  "pandas_read env limit retrieved_so_far data_bytes =
     (case env_data_format env of
        CSV \<Rightarrow>
          (case limit of
             None \<Rightarrow> Inl NoneArithmetic
           | Some l \<Rightarrow> Inr (Some (take (nat (l - retrieved_so_far)) (env_pd_read_csv env data_bytes))))
      | PARQUET \<Rightarrow> Inr (env_pd_read_parquet env data_bytes)
      | JSON \<Rightarrow> Inr (Some (env_pd_read_json env data_bytes))
      | OtherFormat f \<Rightarrow> Inl (PandasFormatNotSupported f))"

definition pandas_finish :: "bool \<Rightarrow> 'r list list \<Rightarrow> 'r event list" where
  "pandas_finish iterate pandas_df_list =
     (if \<not> iterate then
        (if length pandas_df_list > 1 then [Yield (Frame (concat pandas_df_list))]
         else (case pandas_df_list of
                 [] \<Rightarrow> [Raise ListIndexOutOfRange]
               | df # _ \<Rightarrow> [Yield (Frame df)]))
      else [])"

fun pandas_loop ::
  "'r load_env \<Rightarrow> bool \<Rightarrow> int option \<Rightarrow> (string \<times> bytes) list \<Rightarrow> 'r list list \<Rightarrow> int
     \<Rightarrow> 'r event list" where
  "pandas_loop env iterate limit [] pandas_df_list retrieved_so_far =
     pandas_finish iterate pandas_df_list"
| "pandas_loop env iterate limit ((physical_path, data_bytes) # rest) pandas_df_list retrieved_so_far =
     Pull physical_path #
     (if data_bytes = [] then pandas_loop env iterate limit rest pandas_df_list retrieved_so_far
      else
        (case pandas_read env limit retrieved_so_far data_bytes of
           Inl e \<Rightarrow> [Raise e]
         | Inr None \<Rightarrow> pandas_loop env iterate limit rest pandas_df_list retrieved_so_far
         | Inr (Some df0) \<Rightarrow>
             (let so_far0 = retrieved_so_far + int (length df0);
                  stop = (case limit of None \<Rightarrow> False | Some l \<Rightarrow> so_far0 \<ge> l);
                  df = (case limit of
                          None \<Rightarrow> df0
                        | Some l \<Rightarrow> if so_far0 > l then py_slice_to (l - so_far0) df0 else df0);
                  so_far = (case limit of
                              None \<Rightarrow> so_far0
                            | Some l \<Rightarrow> if so_far0 > l then l else so_far0)
              in if iterate then
                   Yield (Frame df) #
                   (if stop then pandas_finish iterate pandas_df_list
                    else pandas_loop env iterate limit rest pandas_df_list so_far)
                 else
                   (if stop then pandas_finish iterate (pandas_df_list @ [df])
                    else pandas_loop env iterate limit rest (pandas_df_list @ [df]) so_far))))"

subsection \<open>The csv branch of the original format, lines 639-679\<close>

definition csv_finish :: "bool \<Rightarrow> 'r list \<Rightarrow> 'r event list" where
  "csv_finish iterate all_data = (if \<not> iterate then [Yield (Frame all_data)] else [])"

text \<open>
  The log line of the streaming mode reads \<^verbatim>\<open>csv_data[0]\<close>, and the header check of the merged
  mode reads it once \<^verbatim>\<open>all_data\<close> is not empty: both fail on a partition without rows.
\<close>

fun csv_loop ::
  "(bytes \<Rightarrow> 'r list) \<Rightarrow> bool \<Rightarrow> bool \<Rightarrow> int option \<Rightarrow> (string \<times> bytes) list \<Rightarrow> 'r list \<Rightarrow> int
     \<Rightarrow> 'r event list" where
  "csv_loop reader data_header_exists iterate limit [] all_data retrieved_so_far =
     csv_finish iterate all_data"
| "csv_loop reader data_header_exists iterate limit ((physical_path, data_bytes) # rest) all_data
       retrieved_so_far =
     Pull physical_path #
     (if data_bytes = [] then
        csv_loop reader data_header_exists iterate limit rest all_data retrieved_so_far
      else
        (let csv_data0 = reader data_bytes;
             so_far0 = retrieved_so_far + int (length csv_data0);
             stop = (case limit of None \<Rightarrow> False | Some l \<Rightarrow> so_far0 \<ge> l);
             csv_data = (case limit of
                           None \<Rightarrow> csv_data0
                         | Some l \<Rightarrow>
                             if so_far0 > l then py_slice_to (l - so_far0) csv_data0 else csv_data0);
             so_far = (case limit of
                         None \<Rightarrow> so_far0
                       | Some l \<Rightarrow> if so_far0 > l then l else so_far0)
         in if iterate then
              (if csv_data = [] then [Raise ListIndexOutOfRange]
               else Yield (Frame csv_data) #
                    (if stop then csv_finish iterate all_data
                     else csv_loop reader data_header_exists iterate limit rest all_data so_far))
            else
              (if data_header_exists \<and> all_data \<noteq> [] \<and> csv_data = [] then
                 [Raise ListIndexOutOfRange]
               else
                 (let all_data' =
                        (if data_header_exists \<and> all_data \<noteq> [] \<and> hd all_data = hd csv_data
                         then all_data @ drop 1 csv_data
                         else all_data @ csv_data)
                  in if stop then csv_finish iterate all_data'
                     else csv_loop reader data_header_exists iterate limit rest all_data' so_far))))"

text \<open>Line 646: \<^verbatim>\<open>limit = limit if not data_header_exists else limit + 1\<close>.\<close>

definition csv_branch :: "'r load_env \<Rightarrow> bool \<Rightarrow> int option \<Rightarrow> 'r event list" where
  "csv_branch env iterate limit =
     (if \<not> env_data_header_exists env then
        csv_loop (env_csv_reader env) False iterate limit (env_data_it env) [] 0
      else
        (case limit of
           None \<Rightarrow> [Raise NoneArithmetic]
         | Some l \<Rightarrow> csv_loop (env_csv_reader env) True iterate (Some (l + 1)) (env_data_it env) [] 0))"

subsection \<open>Any other format: the raw partitions, lines 680-683\<close>

fun raw_partitions :: "(string \<times> bytes) list \<Rightarrow> 'r event list" where
  "raw_partitions [] = []"
| "raw_partitions ((physical_path, data_bytes) # rest) =
     Pull physical_path # Yield (RawPartition physical_path data_bytes) # raw_partitions rest"

subsection \<open>The entry point, lines 438-496\<close>

definition decode_partitions :: "'r load_env \<Rightarrow> int option \<Rightarrow> format_arg \<Rightarrow> bool \<Rightarrow> 'r event list" where
  "decode_partitions env limit format iterate =
     (if format = Format PANDAS then pandas_loop env iterate limit (env_data_it env) [] 0
      else if format = Format SPARK then env_spark_branch env
      else if env_data_format env = CSV then csv_branch env iterate limit
      else raw_partitions (env_data_it env))"

definition poll_absent :: "'r load_env \<Rightarrow> bool" where
  "poll_absent env = (env_poll_path env = None \<or> env_poll_path env = Some [])"

definition load_data :: "'r load_env \<Rightarrow> output_arg \<Rightarrow> py_value \<Rightarrow> format_arg \<Rightarrow> bool \<Rightarrow> 'r event list" where
  "load_data env output limit format iterate =
     (if output = OtherObject then [Raise WrongInputType]
      else if limit \<noteq> PyNone \<and> (if isinstance_int limit then int_value limit \<le> 0 else True) then
        [Raise InvalidLimit]
      else
        (case format of
           FormatInvalid s \<Rightarrow> [Raise (InvalidFormat s)]
         | _ \<Rightarrow>
        (case bound_of output of
           InternalDataNode \<Rightarrow>
             Log (CheckingExistence (env_data_id env) (env_dimension_values env)) #
             (if poll_absent env then
                [Log (OutputAbsent (env_data_id env) (env_dimension_values env)), Yield NoneFrame]
              else []) @
             decode_partitions env (limit_of limit) format iterate
         | ExternalDataNode \<Rightarrow>
             if \<not> env_is_material env then [Raise NotMaterialized]
             else decode_partitions env (limit_of limit) format iterate
         | OtherNode \<Rightarrow> [Raise NodeTypeNotSupported])))"

subsection \<open>Reading a run\<close>

fun yields :: "'r event list \<Rightarrow> 'r frame list" where
  "yields [] = []"
| "yields (Yield f # es) = f # yields es"
| "yields (e # es) = yields es"

fun pulls :: "'r event list \<Rightarrow> string list" where
  "pulls [] = []"
| "pulls (Pull p # es) = p # pulls es"
| "pulls (e # es) = pulls es"

subsection \<open>The csv module on plain text\<close>

text \<open>
  \<^verbatim>\<open>list(csv.reader(data.decode(encoding).splitlines()))\<close> for text whose lines end in a line
  feed and that has no quote characters: \<^verbatim>\<open>splitlines\<close> cuts at each line feed and gives no
  empty last line, and the reader, called without a dialect as in line 650, cuts each line
  at the commas and gives the empty row for an empty line.
\<close>

fun splitlines_from :: "string \<Rightarrow> string \<Rightarrow> string list" where
  "splitlines_from cur [] = (if cur = [] then [] else [rev cur])"
| "splitlines_from cur (c # cs) =
     (if c = CHR 0x0A then rev cur # splitlines_from [] cs else splitlines_from (c # cur) cs)"

fun fields_from :: "string \<Rightarrow> string \<Rightarrow> string list" where
  "fields_from cur [] = [rev cur]"
| "fields_from cur (c # cs) =
     (if c = CHR '','' then rev cur # fields_from [] cs else fields_from (c # cur) cs)"

definition plain_csv_reader :: "bytes \<Rightarrow> string list list" where
  "plain_csv_reader data_bytes =
     map (\<lambda>line. if line = [] then [] else fields_from [] line) (splitlines_from [] data_bytes)"

definition lf :: string where
  "lf = [CHR 0x0A]"

subsection \<open>Example stores\<close>

text \<open>
  An internal csv output \<open>d\<close> whose partitions and header flag are given; the pandas
  decoders see the rows after the header line.
\<close>

definition csv_env :: "string option \<Rightarrow> bool \<Rightarrow> (string \<times> bytes) list \<Rightarrow> (string list) load_env" where
  "csv_env path header parts =
     \<lparr> env_data_id = ''d'', env_dimension_values = ''{}'', env_poll_path = path,
       env_is_material = True, env_data_it = parts, env_data_format = CSV,
       env_data_header_exists = header, env_csv_reader = plain_csv_reader,
       env_pd_read_csv = (\<lambda>data_bytes. drop 1 (plain_csv_reader data_bytes)),
       env_pd_read_parquet = (\<lambda>data_bytes. None),
       env_pd_read_json = (\<lambda>data_bytes. []),
       env_spark_branch = [] \<rparr>"


definition two_partitions :: "(string \<times> bytes) list" where
  "two_partitions =
     [(''p1'', ''h,v'' @ lf @ ''1,a'' @ lf),
      (''p2'', ''h,v'' @ lf @ ''2,b'' @ lf)]"

definition three_partitions :: "(string \<times> bytes) list" where
  "three_partitions =
     [(''p1'', ''h'' @ lf @ ''1'' @ lf),
      (''p2'', ''h'' @ lf @ ''2'' @ lf),
      (''p3'', ''h'' @ lf @ ''3'' @ lf @ ''4'' @ lf)]"

subsection \<open>The limit as the specification words it\<close>

text \<open>
  The specification's reading of a merged load under a limit: the rows each partition
  contributes, and how many partitions must be read before the running count reaches the
  limit. These definitions follow the specification and are compared with the loops, which
  follow the source. A partition without payload contributes nothing; under pandas, neither
  does a parquet partition that pandas rejects.
\<close>

definition csv_rows :: "(bytes \<Rightarrow> 'r list) \<Rightarrow> bytes \<Rightarrow> 'r list" where
  "csv_rows reader b = (if b = [] then [] else reader b)"

definition spec_pandas_rows :: "'r load_env \<Rightarrow> bytes \<Rightarrow> 'r list option" where
  "spec_pandas_rows env b =
     (if b = [] then None
      else (case env_data_format env of
              CSV \<Rightarrow> Some (env_pd_read_csv env b)
            | PARQUET \<Rightarrow> env_pd_read_parquet env b
            | JSON \<Rightarrow> Some (env_pd_read_json env b)
            | OtherFormat f \<Rightarrow> None))"

definition rows_or_none :: "'r list option \<Rightarrow> 'r list" where
  "rows_or_none r = (case r of None \<Rightarrow> [] | Some rows \<Rightarrow> rows)"

fun spec_needed :: "(bytes \<Rightarrow> 'r list) \<Rightarrow> int \<Rightarrow> (string \<times> bytes) list \<Rightarrow> nat" where
  "spec_needed rows n [] = 0"
| "spec_needed rows n ((p, b) # rest) =
     (if n \<le> 0 then 0 else Suc (spec_needed rows (n - int (length (rows b))) rest))"

section \<open>Transient load of an external Glue table\<close>

text \<open>
  The Glue-table branch of \<^verbatim>\<open>AWSApplication._load_external_data\<close> (lines 1111-1170) changes
  the session of the application: it reads \<^verbatim>\<open>_active_context\<close>, writes \<^verbatim>\<open>_dev_context\<close>, and
  calls \<^verbatim>\<open>save_dev_state\<close>, \<^verbatim>\<open>create_data\<close>, \<^verbatim>\<open>execute\<close>, \<^verbatim>\<open>activate\<close>, \<^verbatim>\<open>pause\<close> and
  \<^verbatim>\<open>load_dev_state\<close>.

  Modelled from the spec: the session of the base class \<^verbatim>\<open>Application\<close>. It has the active
  context, which is \<^verbatim>\<open>None\<close> for a session that is not activated, the development context
  with the pending edits, and the single slot of the session snapshot.
\<close>

record 'c session =
  active_context :: "'c option"
  dev_context :: 'c
  dev_state_slot :: "'c option"

text \<open>
  The methods the branch calls are methods of the base class \<^verbatim>\<open>Application\<close>. The branch is
  modelled over any such methods: each is a function on the session. \<open>op_execute\<close> is told
  whether the execution returns or raises.
\<close>

record 'c session_ops =
  op_save_dev_state :: "'c session \<Rightarrow> 'c session"
  op_create_temp_data :: "string \<Rightarrow> 'c session \<Rightarrow> 'c session"
  op_execute :: "string \<Rightarrow> bool \<Rightarrow> 'c session \<Rightarrow> 'c session"
  op_activate :: "'c session \<Rightarrow> 'c session"
  op_pause :: "'c session \<Rightarrow> 'c session"
  op_load_dev_state :: "'c session \<Rightarrow> 'c session"

text \<open>
  The branch is a generator: nothing of its body runs before the consumer asks for the first
  partition. A consumer never starts it (for one, \<^verbatim>\<open>load_data\<close> fails before its loop), or
  closes it while it is suspended at a \<^verbatim>\<open>yield\<close>, or reads it to its end. \<open>ClosesAfter k\<close> is
  the consumer that closes it at the yield of the partition with index \<open>k\<close>, having received
  \<open>k + 1\<close> partitions; with no more than \<open>k\<close> partitions in the store the generator has come
  to its end before.
\<close>

datatype consumer = NeverStarted | ClosesAfter nat | ReadsToEnd

text \<open>
  What happens during one call: what the consumer does, whether the node is in the
  development context, the fresh id of the temporary node, whether its creation or its
  execution raises, the partitions the storage yields and the exception its iterator raises
  after them, if any, and what \<^verbatim>\<open>delete_internal\<close> returns or raises.
\<close>

record transient_env =
  tl_consumer :: consumer
  tl_data_id :: string
  tl_in_dev_context :: bool
  tl_temp_id :: string
  tl_create_error :: "error option"
  tl_execute_error :: "error option"
  tl_partitions :: "(string \<times> bytes) list"
  tl_read_error :: "error option"
  tl_delete_result :: "error + bool"

record 'c transient_run =
  run_session :: "'c session"
  run_yielded :: "(string \<times> bytes) list"
  run_raised :: "error option"
  run_cleanup_complete :: "bool option"

text \<open>
  Lines 1141-1170, the \<^verbatim>\<open>finally\<close> block: the deletion of the temporary output is attempted
  and its failure only logged; then the saved active context, if there was one, becomes the
  development context and is activated, otherwise the application is paused; then the
  dev-state is loaded.
\<close>

definition finally_block ::
  "'c session_ops \<Rightarrow> transient_env \<Rightarrow> 'c option \<Rightarrow> 'c session \<Rightarrow> 'c session \<times> bool" where
  "finally_block ops env active_state s =
     (let complete_cleanup = (case tl_delete_result env of Inr True \<Rightarrow> True | _ \<Rightarrow> False);
          s' = (case active_state of
                  Some a \<Rightarrow> op_activate ops (s\<lparr>dev_context := a\<rparr>)
                | None \<Rightarrow> op_pause ops s)
      in (op_load_dev_state ops s', complete_cleanup))"

text \<open>
  A started generator leaves its \<^verbatim>\<open>try\<close> block when the execution raises, when the storage
  iterator ends or raises, or when the consumer closes it at a \<^verbatim>\<open>yield\<close>; the \<^verbatim>\<open>finally\<close> block
  runs in each case. The check of the development context (lines 1112-1119) and the
  creation of the temporary node are before the \<^verbatim>\<open>try\<close>.
\<close>

definition load_external_data_glue ::
  "'c session_ops \<Rightarrow> transient_env \<Rightarrow> 'c session \<Rightarrow> 'c transient_run" where
  "load_external_data_glue ops env s0 =
     (if tl_consumer env = NeverStarted then
        \<lparr> run_session = s0, run_yielded = [], run_raised = None, run_cleanup_complete = None \<rparr>
      else if \<not> tl_in_dev_context env then
        \<lparr> run_session = s0, run_yielded = [],
          run_raised = Some (NotInDevContext (tl_data_id env)), run_cleanup_complete = None \<rparr>
      else
        (let s1 = op_save_dev_state ops s0;
             active_state = active_context s1
         in case tl_create_error env of
              Some e \<Rightarrow>
                \<lparr> run_session = s1, run_yielded = [], run_raised = Some e,
                  run_cleanup_complete = None \<rparr>
            | None \<Rightarrow>
                (let s2 = op_create_temp_data ops (tl_temp_id env) s1
                 in case tl_execute_error env of
                      Some e \<Rightarrow>
                        (let (s3, complete) =
                               finally_block ops env active_state
                                 (op_execute ops (tl_temp_id env) False s2)
                         in \<lparr> run_session = s3, run_yielded = [], run_raised = Some e,
                              run_cleanup_complete = Some complete \<rparr>)
                    | None \<Rightarrow>
                        (let s_run = op_execute ops (tl_temp_id env) True s2;
                             yielded = (case tl_consumer env of
                                          ClosesAfter k \<Rightarrow> take (Suc k) (tl_partitions env)
                                        | _ \<Rightarrow> tl_partitions env);
                             raised = (case tl_consumer env of
                                         ClosesAfter k \<Rightarrow>
                                           if length (tl_partitions env) \<le> k then tl_read_error env
                                           else None
                                       | _ \<Rightarrow> tl_read_error env);
                             (s3, complete) = finally_block ops env active_state s_run
                         in \<lparr> run_session = s3, run_yielded = yielded, run_raised = raised,
                              run_cleanup_complete = Some complete \<rparr>))))"

text \<open>
  Modelled from the spec: the session methods of the base class \<^verbatim>\<open>Application\<close>
  (\<^verbatim>\<open>save_dev_state\<close>, \<^verbatim>\<open>create_data\<close>, \<^verbatim>\<open>execute\<close>, \<^verbatim>\<open>activate\<close>, \<^verbatim>\<open>pause\<close>, \<^verbatim>\<open>load_dev_state\<close>),
  which are not part of the module. In the specification's words: the snapshot is a
  single-slot capture of the pending, not yet activated edits, so saving overwrites the
  slot; restoring it brings the pending edits back and the slot is discarded; to
  re-activate is to make the development context the active one; to pause or deactivate a
  session that was started for the call leaves its activation state as found, not
  activated. The specification does not say what the creation and the execution of the
  transient node do to the two contexts: their effects are parameters, and they leave the
  snapshot slot alone.
\<close>

definition spec_session_ops ::
  "(string \<Rightarrow> 'c option \<times> 'c \<Rightarrow> 'c option \<times> 'c)
     \<Rightarrow> (string \<Rightarrow> bool \<Rightarrow> 'c option \<times> 'c \<Rightarrow> 'c option \<times> 'c) \<Rightarrow> 'c session_ops" where
  "spec_session_ops create_effect execute_effect =
     \<lparr> op_save_dev_state = (\<lambda>s. s\<lparr>dev_state_slot := Some (dev_context s)\<rparr>),
       op_create_temp_data =
         (\<lambda>i s. s\<lparr>active_context := fst (create_effect i (active_context s, dev_context s)),
                    dev_context := snd (create_effect i (active_context s, dev_context s))\<rparr>),
       op_execute =
         (\<lambda>i ok s. s\<lparr>active_context := fst (execute_effect i ok (active_context s, dev_context s)),
                       dev_context := snd (execute_effect i ok (active_context s, dev_context s))\<rparr>),
       op_activate = (\<lambda>s. s\<lparr>active_context := Some (dev_context s)\<rparr>),
       op_pause = (\<lambda>s. s\<lparr>active_context := None\<rparr>),
       op_load_dev_state =
         (\<lambda>s. case dev_state_slot s of
                None \<Rightarrow> s
              | Some d \<Rightarrow> s\<lparr>dev_context := d, dev_state_slot := None\<rparr>) \<rparr>"

subsection \<open>Example sessions\<close>

text \<open>
  Contexts as lists of node ids: creating the temporary node adds it to the development
  context, executing it launches the development context. A session that was never
  activated, one that runs a table node, and one that was never activated and holds a
  snapshot taken earlier; a call in which every step succeeds and the consumer reads both
  partitions, one in which the execution and the deletion fail, and one the consumer
  closes after the first partition.
\<close>

definition add_node :: "string \<Rightarrow> string list option \<times> string list \<Rightarrow> string list option \<times> string list" where
  "add_node i c = (fst c, snd c @ [i])"

definition launch :: "string \<Rightarrow> bool \<Rightarrow> string list option \<times> string list \<Rightarrow> string list option \<times> string list" where
  "launch i ok c = (Some (snd c), snd c)"

definition fresh_session :: "(string list) session" where
  "fresh_session =
     \<lparr> active_context = None, dev_context = [''table''], dev_state_slot = None \<rparr>"

definition running_session :: "(string list) session" where
  "running_session =
     \<lparr> active_context = Some [''table''], dev_context = [''table'', ''draft''],
       dev_state_slot = None \<rparr>"

definition snapshot_session :: "(string list) session" where
  "snapshot_session =
     \<lparr> active_context = None, dev_context = [''table''], dev_state_slot = Some [''older''] \<rparr>"

definition smooth_call :: transient_env where
  "smooth_call =
     \<lparr> tl_consumer = ReadsToEnd, tl_data_id = ''table'', tl_in_dev_context = True,
       tl_temp_id = ''tmp'', tl_create_error = None, tl_execute_error = None,
       tl_partitions = [(''part-0'', ''a''), (''part-1'', ''b'')], tl_read_error = None,
       tl_delete_result = Inr True \<rparr>"

definition failing_call :: transient_env where
  "failing_call =
     \<lparr> tl_consumer = ReadsToEnd, tl_data_id = ''table'', tl_in_dev_context = True,
       tl_temp_id = ''tmp'', tl_create_error = None,
       tl_execute_error = Some (CollaboratorFailure ''execution failed''),
       tl_partitions = [], tl_read_error = None,
       tl_delete_result = Inl (CollaboratorFailure ''delete failed'') \<rparr>"

definition closed_call :: transient_env where
  "closed_call =
     \<lparr> tl_consumer = ClosesAfter 0, tl_data_id = ''table'', tl_in_dev_context = True,
       tl_temp_id = ''tmp'', tl_create_error = None, tl_execute_error = None,
       tl_partitions = [(''part-0'', ''a''), (''part-1'', ''b'')], tl_read_error = None,
       tl_delete_result = Inr False \<rparr>"

section \<open>Properties of node resolution\<close>

text \<open>
  C9. \<^verbatim>\<open>Application::data\<close> on an id that maps to more than one data node raises a
  \<^verbatim>\<open>ValueError\<close> that carries the id and the number of mapped nodes; on an id that maps
  to exactly one node it returns that node.
\<close>

theorem data_resolution:
  "(1 < length (get_data app data_id) \<longrightarrow>
      data app data_id = Inl (DataAmbiguous data_id (length (get_data app data_id)))
      \<and> exc_class_of (DataAmbiguous data_id (length (get_data app data_id))) = ValueError)
   \<and> (get_data app data_id = [m] \<longrightarrow> data app data_id = Inr (Some m))"
proof (intro conjI impI)
  assume many: "1 < length (get_data app data_id)"
  then have "get_data app data_id \<noteq> []" by auto
  with many show "data app data_id = Inl (DataAmbiguous data_id (length (get_data app data_id)))"
    by (simp add: data_def Let_def)
next
  show "exc_class_of (DataAmbiguous data_id (length (get_data app data_id))) = ValueError"
    by simp
next
  assume "get_data app data_id = [m]"
  then show "data app data_id = Inr (Some m)"
    by (simp add: data_def)
qed

theorem data_resolution_witness:
  "1 < length (get_data (app_of [7, 8] [] [] []) ''x'')
   \<and> data (app_of [7, 8] [] [] []) ''x'' = Inl (DataAmbiguous ''x'' 2)
   \<and> get_data (app_of [7] [] [] []) ''x'' = [7]
   \<and> data (app_of [7] [] [] []) ''x'' = Inr (Some 7)"
  using data_resolution [of "app_of [7, 8] [] [] []" "''x''" 0]
        data_resolution [of "app_of [7] [] [] []" "''x''" 7]
  by (simp add: app_of_def)

lemma lookup_single:
  "get_data app i = [m] \<Longrightarrow> data app i = Inr (Some m)"
  "get_timer app i = [m] \<Longrightarrow> timer app i = Inr (Some m)"
  "get_metric app i s = [m] \<Longrightarrow> metric app i s = Inr (Some m)"
  "get_alarm app i t = [m] \<Longrightarrow> alarm app i t = Inr (Some m)"
  by (simp_all add: data_def timer_def metric_def alarm_def)

lemma lookup_empty:
  "get_data app i = [] \<Longrightarrow> data app i = Inr None"
  "get_timer app i = [] \<Longrightarrow> timer app i = Inr None"
  "get_metric app i s = [] \<Longrightarrow> metric app i s = Inr None"
  "get_alarm app i t = [] \<Longrightarrow> alarm app i t = Inr None"
  by (simp_all add: data_def timer_def metric_def alarm_def)

lemma lookup_error_class:
  "data app i = Inl e \<Longrightarrow> exc_class_of e = ValueError"
  "timer app i = Inl e \<Longrightarrow> exc_class_of e = ValueError"
  "metric app i s = Inl e \<Longrightarrow> exc_class_of e = ValueError"
  "alarm app i t = Inl e \<Longrightarrow> exc_class_of e = ValueError"
  by (auto simp add: data_def timer_def metric_def alarm_def Let_def split: if_splits)

lemma getitem_str_result:
  "case getitem app (ArgStr i) of Inl e \<Rightarrow> exc_class_of e = ValueError | Inr r \<Rightarrow> r \<noteq> None"
  by (auto simp: getitem_not_found_def lookup_error_class split: sum.splits option.splits)

text \<open>
  C10. For a string id, \<^verbatim>\<open>__getitem__\<close> asks the data nodes, then the timer nodes, then the
  metric nodes, then the alarm nodes, and returns the first node found; when none of the
  four has a node for the id it raises a \<^verbatim>\<open>ValueError\<close>. Every outcome is a node or a
  \<^verbatim>\<open>ValueError\<close>: \<^verbatim>\<open>None\<close> is never returned.
\<close>

theorem getitem_str_order:
  "(case getitem app (ArgStr i) of Inl e \<Rightarrow> exc_class_of e = ValueError | Inr r \<Rightarrow> r \<noteq> None)
   \<and> (get_data app i = [m] \<longrightarrow> getitem app (ArgStr i) = Inr (Some m))
   \<and> (get_data app i = [] \<and> get_timer app i = [m] \<longrightarrow> getitem app (ArgStr i) = Inr (Some m))
   \<and> (get_data app i = [] \<and> get_timer app i = [] \<and> get_metric app i None = [m]
        \<longrightarrow> getitem app (ArgStr i) = Inr (Some m))
   \<and> (get_data app i = [] \<and> get_timer app i = [] \<and> get_metric app i None = []
        \<and> get_alarm app i AlarmType_ALL = [m] \<longrightarrow> getitem app (ArgStr i) = Inr (Some m))
   \<and> (get_data app i = [] \<and> get_timer app i = [] \<and> get_metric app i None = []
        \<and> get_alarm app i AlarmType_ALL = []
        \<longrightarrow> getitem app (ArgStr i) = Inl (NodeNotFound i (app_id app)))"
proof (intro conjI impI)
  show "case getitem app (ArgStr i) of Inl e \<Rightarrow> exc_class_of e = ValueError | Inr r \<Rightarrow> r \<noteq> None"
    by (rule getitem_str_result)
qed (simp_all add: lookup_single lookup_empty getitem_not_found_def)

theorem getitem_str_order_witness:
  "getitem (app_of [1] [2] [3] [4]) (ArgStr ''x'') = Inr (Some 1)
   \<and> getitem (app_of [] [2] [3] [4]) (ArgStr ''x'') = Inr (Some 2)
   \<and> getitem (app_of [] [] [3] [4]) (ArgStr ''x'') = Inr (Some 3)
   \<and> getitem (app_of [] [] [] [4]) (ArgStr ''x'') = Inr (Some 4)
   \<and> getitem (app_of [] [] [] []) (ArgStr ''x'') = Inl (NodeNotFound ''x'' ''app'')
   \<and> getitem (app_of [1, 5] [2] [3] [4]) (ArgStr ''x'') = Inl (DataAmbiguous ''x'' 2)"
proof -
  have g: "get_data (app_of ds ts ms als) ''x'' = ds" "get_timer (app_of ds ts ms als) ''x'' = ts"
    "get_metric (app_of ds ts ms als) ''x'' None = ms"
    "get_alarm (app_of ds ts ms als) ''x'' AlarmType_ALL = als"
    "app_id (app_of ds ts ms als) = ''app''" for ds ts ms als
    by (simp_all add: app_of_def)
  have amb: "getitem (app_of [1, 5] [2] [3] [4]) (ArgStr ''x'') = Inl (DataAmbiguous ''x'' 2)"
    by (simp add: data_def g)
  from getitem_str_order [of "app_of [1] [2] [3] [4]" "''x''" 1]
       getitem_str_order [of "app_of [] [2] [3] [4]" "''x''" 2]
       getitem_str_order [of "app_of [] [] [3] [4]" "''x''" 3]
       getitem_str_order [of "app_of [] [] [] [4]" "''x''" 4]
       getitem_str_order [of "app_of [] [] [] []" "''x''" 0]
       amb
  show ?thesis by (simp add: g)
qed

section \<open>Properties of the default output links\<close>

lemma scan_independent_find:
  "scan_independent (filter (\<lambda>s. \<not> is_dependent s) inputs) n =
     (case spec_exposing_input inputs n of
        None \<Rightarrow> None
      | Some s \<Rightarrow> Some (n, None, SignalDimensionTuple (clone s None)
                         (the (find_dimension_by_name (dimension_spec s) n))))"
  unfolding spec_exposing_input_def
  by (induction inputs) (auto split: option.splits)

lemma dependent_links_Inr:
  "dependent_links node_id f out indep ns = Inr ls \<Longrightarrow>
     length ls = length ns \<and> (\<forall>i < length ns. dependent_link node_id f out indep (ns ! i) = Inr (ls ! i))"
proof (induction ns arbitrary: ls)
  case Nil
  then show ?case by simp
next
  case (Cons n ns)
  from Cons.prems obtain l ls' where l: "dependent_link node_id f out indep n = Inr l"
    and ls': "dependent_links node_id f out indep ns = Inr ls'" and eq: "ls = l # ls'"
    by (auto split: sum.splits)
  from Cons.IH [OF ls'] have len: "length ls' = length ns"
    and nth: "\<forall>i < length ns. dependent_link node_id f out indep (ns ! i) = Inr (ls' ! i)"
    by simp_all
  show ?case
  proof (intro conjI allI impI)
    show "length ls = length (n # ns)" using len eq by simp
  next
    fix i assume "i < length (n # ns)"
    then show "dependent_link node_id f out indep ((n # ns) ! i) = Inr (ls ! i)"
      using l nth eq by (cases i) simp_all
  qed
qed

lemma dependent_link_spec:
  assumes "find_variant_by_name (dimension_filter_spec first_signal) n \<noteq> None"
  shows "dependent_link node_id first_signal (clone first_signal None)
           (filter (\<lambda>s. \<not> is_dependent s) inputs) n =
         (if spec_unlinkable first_signal inputs n
          then Inl (CannotLinkDimension n (signal_alias first_signal) node_id)
          else Inr (spec_default_link first_signal inputs n))"
  using assms
  by (auto simp: dependent_link_def spec_unlinkable_def spec_default_link_def clone_def
        scan_independent_find split: option.splits)

lemma dependent_links_spec:
  assumes "\<forall>n \<in> set ns. find_variant_by_name (dimension_filter_spec first_signal) n \<noteq> None"
  shows "dependent_links node_id first_signal (clone first_signal None)
           (filter (\<lambda>s. \<not> is_dependent s) inputs) ns =
         (case find (spec_unlinkable first_signal inputs) ns of
            Some n \<Rightarrow> Inl (CannotLinkDimension n (signal_alias first_signal) node_id)
          | None \<Rightarrow> Inr (map (spec_default_link first_signal inputs) ns))"
  using assms
proof (induction ns)
  case Nil
  then show ?case by simp
next
  case (Cons n ns)
  then show ?case
    by (simp add: dependent_link_spec split: option.splits)
qed

lemma resolve_output_dependent:
  assumes "is_dependent first_signal"
    and "output_dim_links = None \<or> output_dim_links = Some []"
  shows "resolve_output node_id (first_signal # rest) None output_dim_links =
     (case dependent_links node_id first_signal (clone first_signal None)
             (filter (\<lambda>s. \<not> is_dependent s) (first_signal # rest))
             (map dim_name (dimension_spec first_signal)) of
        Inl e \<Rightarrow> Inl e
      | Inr links \<Rightarrow> Inr (dimension_spec first_signal, Some links))"
  using assms
  by (auto simp: resolve_output_def clone_def get_flattened_dimension_map_def comp_def)

text \<open>
  C3. \<^verbatim>\<open>create_data\<close> with inputs, without an output dimension spec and without output links,
  on a dependent first input: in the links it computes, the link of every dimension whose
  value on the first input is material is the literal value itself, a copy, and not a
  reference to a dimension of the dependent input.
\<close>

theorem dependent_material_dimension_is_literal:
  assumes dep: "is_dependent first_signal"
    and nolinks: "output_dim_links = None \<or> output_dim_links = Some []"
    and res: "resolve_output node_id (first_signal # rest) None output_dim_links = Inr (spec, links)"
    and i: "i < length (dimension_spec first_signal)"
    and v: "find_variant_by_name (dimension_filter_spec first_signal)
              (dim_name (dimension_spec first_signal ! i)) = Some v"
    and mat: "is_material_value v"
  shows "\<exists>ls. links = Some ls \<and> length ls = length (dimension_spec first_signal)
           \<and> ls ! i = (dim_name (dimension_spec first_signal ! i), None, LiteralValue (variant_value v))"
proof -
  let ?indep = "filter (\<lambda>s. \<not> is_dependent s) (first_signal # rest)"
  let ?names = "map dim_name (dimension_spec first_signal)"
  let ?out = "clone first_signal None"
  from res obtain ls where ls: "dependent_links node_id first_signal ?out ?indep ?names = Inr ls"
    and links: "links = Some ls"
    unfolding resolve_output_dependent [OF dep nolinks] by (auto split: sum.splits)
  from dependent_links_Inr [OF ls] i
  have len: "length ls = length (dimension_spec first_signal)"
    and step: "dependent_link node_id first_signal ?out ?indep (?names ! i) = Inr (ls ! i)"
    by simp_all
  have "dependent_link node_id first_signal ?out ?indep (dim_name (dimension_spec first_signal ! i))
          = Inr (dim_name (dimension_spec first_signal ! i), None, LiteralValue (variant_value v))"
    using v mat by (simp add: dependent_link_def clone_def)
  with step i have "ls ! i = (dim_name (dimension_spec first_signal ! i), None, LiteralValue (variant_value v))"
    by simp
  with links len show ?thesis by simp
qed

theorem dependent_material_dimension_is_literal_witness:
  "is_dependent ex_dependent
   \<and> resolve_output ''out'' [ex_dependent, ex_regional, ex_daily] None None
       = Inr ([ex_region, ex_day],
              Some [(''region'', None, LiteralValue ''NA''),
                    (''day'', None, SignalDimensionTuple (clone ex_daily None) ex_day)])
   \<and> find_variant_by_name (dimension_filter_spec ex_dependent) (dim_name (dimension_spec ex_dependent ! 0))
       = Some \<lparr>variant_value = ''NA'', is_material_value = True\<rparr>
   \<and> (\<exists>ls. Some [(''region'', None, LiteralValue ''NA''),
                  (''day'', None, SignalDimensionTuple (clone ex_daily None) ex_day)] = Some ls
          \<and> length ls = length (dimension_spec ex_dependent)
          \<and> ls ! 0 = (dim_name (dimension_spec ex_dependent ! 0), None, LiteralValue ''NA''))"
proof -
  have h1: "is_dependent ex_dependent" by (simp add: ex_dependent_def)
  have h2: "(None :: dim_link list option) = None \<or> (None :: dim_link list option) = Some []" by simp
  have h3: "resolve_output ''out'' (ex_dependent # [ex_regional, ex_daily]) None None
       = Inr ([ex_region, ex_day],
              Some [(''region'', None, LiteralValue ''NA''),
                    (''day'', None, SignalDimensionTuple (clone ex_daily None) ex_day)])"
    by (simp add: resolve_output_def clone_def get_flattened_dimension_map_def ex_dependent_def
          ex_regional_def ex_daily_def ex_region_def ex_day_def dependent_link_def
          find_variant_by_name_def find_dimension_by_name_def)
  have h4: "0 < length (dimension_spec ex_dependent)" by (simp add: ex_dependent_def)
  have h5: "find_variant_by_name (dimension_filter_spec ex_dependent)
              (dim_name (dimension_spec ex_dependent ! 0))
            = Some \<lparr>variant_value = ''NA'', is_material_value = True\<rparr>"
    by (simp add: ex_dependent_def ex_region_def find_variant_by_name_def)
  have h6: "is_material_value \<lparr>variant_value = ''NA'', is_material_value = True\<rparr>" by simp
  from dependent_material_dimension_is_literal [OF h1 h2 h3 h4 h5 h6] h1 h3 h5
  show ?thesis by simp
qed

text \<open>
  C4. In the same call, a dimension whose value is not material is linked to the first
  independent input, in declaration order, that has a dimension of that name; when some
  such dimension has no independent input, the call fails with the error that names the
  first dimension it could not link. The code agrees with the specification's reading of
  the resolver (\<open>spec_unlinkable\<close>, \<open>spec_default_link\<close>) on every signal whose filter
  binds all dimensions of its spec.
\<close>

theorem dependent_unmaterialized_dimension_links:
  assumes dep: "is_dependent first_signal"
    and nolinks: "output_dim_links = None \<or> output_dim_links = Some []"
    and bound: "\<forall>d \<in> set (dimension_spec first_signal).
                  find_variant_by_name (dimension_filter_spec first_signal) (dim_name d) \<noteq> None"
  shows "resolve_output node_id (first_signal # rest) None output_dim_links =
     (case find (spec_unlinkable first_signal (first_signal # rest))
                (map dim_name (dimension_spec first_signal)) of
        Some n \<Rightarrow> Inl (CannotLinkDimension n (signal_alias first_signal) node_id)
      | None \<Rightarrow> Inr (dimension_spec first_signal,
                     Some (map (spec_default_link first_signal (first_signal # rest))
                               (map dim_name (dimension_spec first_signal)))))"
proof -
  have b: "\<forall>n \<in> set (map dim_name (dimension_spec first_signal)).
             find_variant_by_name (dimension_filter_spec first_signal) n \<noteq> None"
    using bound by simp
  show ?thesis
    unfolding resolve_output_dependent [OF dep nolinks] dependent_links_spec [OF b]
    by (simp split: option.splits)
qed

theorem dependent_unmaterialized_dimension_links_witness:
  "is_dependent ex_dependent
   \<and> dimension_spec ex_dependent = [ex_region, ex_day]
   \<and> find_variant_by_name (dimension_filter_spec ex_dependent) (dim_name ex_region) \<noteq> None
   \<and> find_variant_by_name (dimension_filter_spec ex_dependent) (dim_name ex_day) \<noteq> None
   \<and> resolve_output ''out'' [ex_dependent, ex_regional, ex_daily] None None
       = Inr ([ex_region, ex_day],
              Some [(''region'', None, LiteralValue ''NA''),
                    (''day'', None, SignalDimensionTuple (clone ex_daily None) ex_day)])
   \<and> resolve_output ''out'' [ex_dependent, ex_regional] None None
       = Inl (CannotLinkDimension ''day'' (Some ''ref'') ''out'')"
proof -
  have h1: "is_dependent ex_dependent" by (simp add: ex_dependent_def)
  have h2: "(None :: dim_link list option) = None \<or> (None :: dim_link list option) = Some []" by simp
  have h3: "\<forall>d \<in> set (dimension_spec ex_dependent).
         find_variant_by_name (dimension_filter_spec ex_dependent) (dim_name d) \<noteq> None"
    by (simp add: ex_dependent_def ex_region_def ex_day_def find_variant_by_name_def)
  have ev: "spec_unlinkable ex_dependent [ex_dependent, ex_regional, ex_daily] ''region'' = False"
    "spec_unlinkable ex_dependent [ex_dependent, ex_regional, ex_daily] ''day'' = False"
    "spec_unlinkable ex_dependent [ex_dependent, ex_regional] ''region'' = False"
    "spec_unlinkable ex_dependent [ex_dependent, ex_regional] ''day'' = True"
    by (simp_all add: spec_unlinkable_def spec_exposing_input_def ex_dependent_def ex_regional_def
          ex_daily_def ex_region_def ex_day_def find_variant_by_name_def find_dimension_by_name_def)
  have lk: "spec_default_link ex_dependent [ex_dependent, ex_regional, ex_daily] ''region''
              = (''region'', None, LiteralValue ''NA'')"
    "spec_default_link ex_dependent [ex_dependent, ex_regional, ex_daily] ''day''
              = (''day'', None, SignalDimensionTuple (clone ex_daily None) ex_day)"
    by (simp_all add: spec_default_link_def spec_exposing_input_def ex_dependent_def ex_regional_def
          ex_daily_def ex_region_def ex_day_def find_variant_by_name_def find_dimension_by_name_def)
  have dn: "dim_name ex_region = ''region''" "dim_name ex_day = ''day''"
    by (simp_all add: ex_region_def ex_day_def)
  have names: "map dim_name (dimension_spec ex_dependent) = [''region'', ''day'']"
    "dimension_spec ex_dependent = [ex_region, ex_day]" "signal_alias ex_dependent = Some ''ref''"
    by (simp_all add: ex_dependent_def ex_region_def ex_day_def)
  from dependent_unmaterialized_dimension_links [OF h1 h2 h3, of "''out''" "[ex_regional, ex_daily]"]
       dependent_unmaterialized_dimension_links [OF h1 h2 h3, of "''out''" "[ex_regional]"]
       h1 h3
  show ?thesis by (simp add: ev lk names dn)
qed

lemma find_dimension_by_name_own:
  "d \<in> set spec \<Longrightarrow> \<exists>d'. find_dimension_by_name spec (dim_name d) = Some d' \<and> d' \<in> set spec
      \<and> dim_name d' = dim_name d"
  unfolding find_dimension_by_name_def
  by (induction spec) auto

text \<open>
  C5. \<^verbatim>\<open>create_data\<close> with inputs and without an output dimension spec, on an independent
  first input: the output dimension spec is the spec of the first input, and when no output
  links are given, each output dimension is linked, with the identity mapper \<^verbatim>\<open>None\<close>, to
  the dimension of that name of the first input. Links the caller gives are kept.
\<close>

theorem independent_first_input_identity_links:
  assumes indep: "\<not> is_dependent first_signal"
  shows "\<exists>links. resolve_output node_id (first_signal # rest) None output_dim_links
                    = Inr (dimension_spec first_signal, links)
           \<and> (if output_dim_links = None \<or> output_dim_links = Some [] then
                \<exists>ls. links = Some ls \<and> length ls = length (dimension_spec first_signal)
                  \<and> (\<forall>i < length ls. \<exists>d. d \<in> set (dimension_spec first_signal)
                        \<and> dim_name d = dim_name (dimension_spec first_signal ! i)
                        \<and> ls ! i = (dim_name (dimension_spec first_signal ! i), None,
                                    SignalDimensionTuple (clone first_signal None) d))
              else links = output_dim_links)"
proof (cases "output_dim_links = None \<or> output_dim_links = Some []")
  case True
  let ?ls = "independent_links (clone first_signal None)"
  have res: "resolve_output node_id (first_signal # rest) None output_dim_links
               = Inr (dimension_spec first_signal, Some ?ls)"
    using True indep by (auto simp: resolve_output_def clone_def)
  have len: "length ?ls = length (dimension_spec first_signal)"
    by (simp add: independent_links_def get_flattened_dimension_map_def clone_def)
  have nth: "\<exists>d. d \<in> set (dimension_spec first_signal)
                \<and> dim_name d = dim_name (dimension_spec first_signal ! i)
                \<and> ?ls ! i = (dim_name (dimension_spec first_signal ! i), None,
                             SignalDimensionTuple (clone first_signal None) d)"
    if "i < length ?ls" for i
  proof -
    from that len have i: "i < length (dimension_spec first_signal)" by simp
    then have "dimension_spec first_signal ! i \<in> set (dimension_spec first_signal)" by simp
    from find_dimension_by_name_own [OF this]
    obtain d' where d': "find_dimension_by_name (dimension_spec first_signal)
                           (dim_name (dimension_spec first_signal ! i)) = Some d'"
      "d' \<in> set (dimension_spec first_signal)"
      "dim_name d' = dim_name (dimension_spec first_signal ! i)" by blast
    have "?ls ! i = (dim_name (dimension_spec first_signal ! i), None,
                     SignalDimensionTuple (clone first_signal None) d')"
      using i d'(1) by (simp add: independent_links_def get_flattened_dimension_map_def clone_def)
    with d'(2,3) show ?thesis by blast
  qed
  from res len nth True show ?thesis by auto
next
  case False
  then have "resolve_output node_id (first_signal # rest) None output_dim_links
               = Inr (dimension_spec first_signal, output_dim_links)"
    by (auto simp: resolve_output_def)
  with False show ?thesis by auto
qed

theorem independent_first_input_identity_links_witness:
  "\<not> is_dependent ex_daily
   \<and> resolve_output ''out'' [ex_daily, ex_dependent] None None
       = Inr ([ex_day], Some [(''day'', None, SignalDimensionTuple (clone ex_daily None) ex_day)])"
proof -
  have h: "\<not> is_dependent ex_daily" by (simp add: ex_daily_def)
  have r: "resolve_output ''out'' [ex_daily, ex_dependent] None None
       = Inr ([ex_day], Some [(''day'', None, SignalDimensionTuple (clone ex_daily None) ex_day)])"
    by (simp add: resolve_output_def independent_links_def get_flattened_dimension_map_def
          find_dimension_by_name_def clone_def ex_daily_def ex_day_def)
  from independent_first_input_identity_links [OF h, of "''out''" "[ex_dependent]" None] h r
  show ?thesis by simp
qed

section \<open>Properties of loading\<close>

subsection \<open>Merged loads under a limit\<close>

lemma spec_needed_done [simp]: "n \<le> 0 \<Longrightarrow> spec_needed rows n parts = 0"
  by (cases parts) auto

lemma pandas_finish_merged: "dfs \<noteq> [] \<Longrightarrow> pandas_finish False dfs = [Yield (Frame (concat dfs))]"
  by (cases dfs) (auto simp: pandas_finish_def split: list.splits)

lemma pandas_loop_skip:
  assumes "spec_pandas_rows env b = None" and "\<forall>f. env_data_format env \<noteq> OtherFormat f"
  shows "pandas_loop env False (Some N) ((p, b) # rest) dfs so_far
         = Pull p # pandas_loop env False (Some N) rest dfs so_far"
  using assms
  by (auto simp: spec_pandas_rows_def pandas_read_def split: if_splits data_format.splits)

lemma pandas_loop_step:
  assumes rows: "spec_pandas_rows env b = Some rows" and lt: "so_far < N"
  shows "pandas_loop env False (Some N) ((p, b) # rest) dfs so_far
         = Pull p #
           (if N - so_far \<le> int (length rows)
            then pandas_finish False (dfs @ [take (nat (N - so_far)) rows])
            else pandas_loop env False (Some N) rest (dfs @ [rows]) (so_far + int (length rows)))"
proof -
  from rows have b: "b \<noteq> []" by (auto simp: spec_pandas_rows_def split: if_splits)
  show ?thesis
  proof (cases "env_data_format env")
    case CSV
    with rows b have r: "env_pd_read_csv env b = rows" by (simp add: spec_pandas_rows_def)
    show ?thesis
    proof (cases "N - so_far \<le> int (length rows)")
      case True
      then have "int (min (length rows) (nat (N - so_far))) = N - so_far" using lt by simp
      with True show ?thesis using CSV r b lt
        by (simp add: pandas_read_def Let_def)
    next
      case False
      then have "min (length rows) (nat (N - so_far)) = length rows" by simp
      with False show ?thesis using CSV r b lt
        by (simp add: pandas_read_def Let_def)
    qed
  next
    case PARQUET
    with rows b have r: "env_pd_read_parquet env b = Some rows" by (simp add: spec_pandas_rows_def)
    have sl: "py_slice_to (N - (so_far + int (length rows))) rows = take (nat (N - so_far)) rows"
      if "N < so_far + int (length rows)"
      using that lt by (simp add: py_slice_to_def algebra_simps)
    show ?thesis using PARQUET r b lt sl
      by (auto simp: pandas_read_def Let_def)
  next
    case JSON
    with rows b have r: "env_pd_read_json env b = rows" by (simp add: spec_pandas_rows_def)
    have sl: "py_slice_to (N - (so_far + int (length rows))) rows = take (nat (N - so_far)) rows"
      if "N < so_far + int (length rows)"
      using that lt by (simp add: py_slice_to_def algebra_simps)
    show ?thesis using JSON r b lt sl
      by (auto simp: pandas_read_def Let_def)
  next
    case (OtherFormat f)
    with rows b show ?thesis by (simp add: spec_pandas_rows_def)
  qed
qed

lemma pandas_loop_merged:
  assumes "so_far = int (length (concat dfs))" and "so_far < N"
    and fmt: "\<forall>f. env_data_format env \<noteq> OtherFormat f"
  shows "pandas_loop env False (Some N) parts dfs so_far
         = map Pull (map fst (take (spec_needed (\<lambda>b. rows_or_none (spec_pandas_rows env b)) (N - so_far) parts) parts))
           @ (if dfs = [] \<and> list_all (\<lambda>(p, b). spec_pandas_rows env b = None) parts
              then [Raise ListIndexOutOfRange]
              else [Yield (Frame (take (nat N)
                      (concat dfs @ concat (map (\<lambda>(p, b). rows_or_none (spec_pandas_rows env b)) parts))))])"
  using assms(1,2)
proof (induction parts arbitrary: dfs so_far)
  case Nil
  then show ?case by (cases dfs) (auto simp: pandas_finish_def split: list.splits)
next
  case (Cons part parts)
  obtain p b where part: "part = (p, b)" by (cases part)
  show ?case
  proof (cases "spec_pandas_rows env b")
    case None
    show ?thesis
      unfolding part pandas_loop_skip [OF None fmt]
      using Cons.IH [OF Cons.prems] Cons.prems None
      by (simp add: rows_or_none_def)
  next
    case (Some rows)
    show ?thesis
    proof (cases "N - so_far \<le> int (length rows)")
      case True
      have "concat dfs @ take (nat (N - so_far)) rows
            = take (nat N) (concat dfs @ rows @ concat (map (\<lambda>(p, b). rows_or_none (spec_pandas_rows env b)) parts))"
        using True Cons.prems by (simp add: nat_diff_distrib')
      then show ?thesis
        unfolding part pandas_loop_step [OF Some Cons.prems(2)]
        using True Cons.prems Some
        by (simp add: pandas_finish_merged rows_or_none_def)
    next
      case False
      have ih: "pandas_loop env False (Some N) parts (dfs @ [rows]) (so_far + int (length rows))
         = map Pull (map fst (take (spec_needed (\<lambda>b. rows_or_none (spec_pandas_rows env b))
                                    (N - (so_far + int (length rows))) parts) parts))
           @ (if dfs @ [rows] = [] \<and> list_all (\<lambda>(p, b). spec_pandas_rows env b = None) parts
              then [Raise ListIndexOutOfRange]
              else [Yield (Frame (take (nat N)
                      (concat (dfs @ [rows]) @ concat (map (\<lambda>(p, b). rows_or_none (spec_pandas_rows env b)) parts))))])"
        by (rule Cons.IH) (use False Cons.prems in simp_all)
      show ?thesis
        unfolding part pandas_loop_step [OF Some Cons.prems(2)]
        using False Cons.prems Some ih
        by (simp add: rows_or_none_def algebra_simps)
    qed
  qed
qed


lemma csv_rows_simps:
  "csv_rows reader [] = []"
  "b \<noteq> [] \<Longrightarrow> csv_rows reader b = reader b"
  by (simp_all add: csv_rows_def)

lemma py_slice_to_drop_end:
  "0 \<le> k \<Longrightarrow> k < int (length xs) \<Longrightarrow> py_slice_to (k - int (length xs)) xs = take (nat k) xs"
  by (simp add: py_slice_to_def)

lemma csv_loop_merged_no_header:
  assumes "retrieved = int (length all_data)" and "int (length all_data) < N"
  shows "csv_loop reader False False (Some N) parts all_data retrieved
         = map Pull (map fst (take (spec_needed (csv_rows reader) (N - int (length all_data)) parts) parts))
           @ [Yield (Frame (take (nat N) (all_data @ concat (map (\<lambda>(p, b). csv_rows reader b) parts))))]"
  using assms
proof (induction parts arbitrary: all_data retrieved)
  case Nil
  then show ?case by (simp add: csv_finish_def csv_rows_simps)
next
  case (Cons part parts)
  obtain p b where part: "part = (p, b)" by (cases part)
  show ?case
  proof (cases "b = []")
    case True
    with Cons part show ?thesis by (simp add: csv_rows_simps)
  next
    case False
    let ?rows = "reader b"
    let ?tot = "int (length all_data) + int (length ?rows)"
    consider (more) "?tot > N" | (exact) "?tot = N" | (less) "?tot < N" by linarith
    then show ?thesis
    proof cases
      case more
      have k: "0 \<le> N - int (length all_data)" "N - int (length all_data) < int (length ?rows)"
        using more Cons.prems by simp_all
      have "py_slice_to (N - ?tot) ?rows = take (nat (N - int (length all_data))) ?rows"
        using py_slice_to_drop_end [OF k] by (simp add: algebra_simps)
      moreover have "nat (N - int (length all_data)) = nat N - length all_data"
        using Cons.prems by simp
      ultimately show ?thesis
        using more Cons.prems part False
        by (simp add: Let_def csv_finish_def csv_rows_simps)
    next
      case exact
      then have "nat N = length all_data + length ?rows" by simp
      then show ?thesis
        using exact Cons.prems part False
        by (simp add: Let_def csv_finish_def csv_rows_simps)
    next
      case less
      have ih: "csv_loop reader False False (Some N) parts (all_data @ ?rows) ?tot
         = map Pull (map fst (take (spec_needed (csv_rows reader) (N - int (length (all_data @ ?rows))) parts) parts))
           @ [Yield (Frame (take (nat N) ((all_data @ ?rows) @ concat (map (\<lambda>(p, b). csv_rows reader b) parts))))]"
        by (rule Cons.IH) (use less in simp_all)
      show ?thesis
        using less Cons.prems part False ih
        by (simp add: Let_def csv_rows_simps algebra_simps)
    qed
  qed
qed


subsection \<open>Runs on the example stores\<close>

lemma csv_env_fields:
  "env_data_id (csv_env path header parts) = ''d''"
  "env_dimension_values (csv_env path header parts) = ''{}''"
  "env_poll_path (csv_env path header parts) = path"
  "env_data_it (csv_env path header parts) = parts"
  "env_data_format (csv_env path header parts) = CSV"
  "env_data_header_exists (csv_env path header parts) = header"
  "env_csv_reader (csv_env path header parts) = plain_csv_reader"
  "env_pd_read_csv (csv_env path header parts) = (\<lambda>b. drop 1 (plain_csv_reader b))"
  by (simp_all add: csv_env_def)

lemma header_deduplicated_when_merged:
  "load_data (csv_env (Some ''s3://b/d'') True two_partitions) (MarshalerNode InternalDataNode)
     (PyInt 10) FormatNone False
   = [Log (CheckingExistence ''d'' ''{}''), Pull ''p1'', Pull ''p2'',
      Yield (Frame [[''h'', ''v''], [''1'', ''a''], [''2'', ''b'']])]"
  by (simp add: load_data_def decode_partitions_def csv_branch_def poll_absent_def csv_env_fields
        two_partitions_def plain_csv_reader_def lf_def Let_def csv_finish_def)

lemma header_kept_when_streaming:
  "load_data (csv_env (Some ''s3://b/d'') True two_partitions) (MarshalerNode InternalDataNode)
     (PyInt 10) FormatNone True
   = [Log (CheckingExistence ''d'' ''{}''),
      Pull ''p1'', Yield (Frame [[''h'', ''v''], [''1'', ''a'']]),
      Pull ''p2'', Yield (Frame [[''h'', ''v''], [''2'', ''b'']])]"
  by (simp add: load_data_def decode_partitions_def csv_branch_def poll_absent_def csv_env_fields
        two_partitions_def plain_csv_reader_def lf_def Let_def csv_finish_def)

lemma pandas_csv_without_limit_raises:
  "load_data (csv_env (Some ''s3://b/d'') True two_partitions) (MarshalerNode InternalDataNode)
     PyNone (Format PANDAS) False
   = [Log (CheckingExistence ''d'' ''{}''), Pull ''p1'', Raise NoneArithmetic]"
  by (simp add: load_data_def decode_partitions_def poll_absent_def csv_env_fields
        two_partitions_def lf_def pandas_read_def)

text \<open>
  C6. In the merged mode of the csv branch, a partition's first row that equals the first
  row accumulated so far is dropped when the access spec declares a header
  (\<open>header_deduplicated_when_merged\<close>), and the streaming mode keeps it
  (\<open>header_kept_when_streaming\<close>); both runs are under a limit. The scenario of the claim
  has no limit: for the partitions \<^verbatim>\<open>"h,v\n1,a\n"\<close> and \<^verbatim>\<open>"h,v\n2,b\n"\<close>, with the header
  declared and \<^verbatim>\<open>limit=None\<close>, line 646 adds one to \<^verbatim>\<open>None\<close>, and the run ends with a
  \<^verbatim>\<open>TypeError\<close> before any partition is read.
\<close>

theorem header_scenario_without_limit_raises:
  "load_data (csv_env (Some ''s3://b/d'') True two_partitions) (MarshalerNode InternalDataNode)
     PyNone FormatNone False
   = [Log (CheckingExistence ''d'' ''{}''), Raise NoneArithmetic]"
proof -
  let ?env = "csv_env (Some ''s3://b/d'') True two_partitions"
  have branch: "csv_branch ?env False None = [Raise NoneArithmetic]"
    by (simp add: csv_branch_def csv_env_fields)
  have "decode_partitions ?env (limit_of PyNone) FormatNone False = [Raise NoneArithmetic]"
    by (simp add: decode_partitions_def csv_env_fields branch)
  moreover have "\<not> poll_absent ?env"
    by (simp add: poll_absent_def csv_env_fields)
  ultimately show ?thesis
    by (simp add: load_data_def csv_env_fields)
qed

lemma pandas_keeps_rows_under_limit:
  "load_data (csv_env (Some ''s3://b/d'') True three_partitions) (MarshalerNode InternalDataNode)
     (PyInt 4) (Format PANDAS) False
   = [Log (CheckingExistence ''d'' ''{}''), Pull ''p1'', Pull ''p2'', Pull ''p3'',
      Yield (Frame [[''1''], [''2''], [''3''], [''4'']])]"
  by (simp add: load_data_def decode_partitions_def poll_absent_def csv_env_fields
        three_partitions_def plain_csv_reader_def lf_def Let_def pandas_finish_def pandas_read_def py_slice_to_def)

text \<open>
  C1. A merged load under a limit \<open>N\<close> gives the first \<open>N\<close> rows of the partitions, cut inside
  the last partition read, and reads no partition after the count reaches \<open>N\<close>: this holds
  for the pandas branch (\<open>pandas_loop_merged\<close>) and for the csv branch without a header
  (\<open>csv_loop_merged_no_header\<close>), and pandas returns all four rows of the example
  (\<open>pandas_keeps_rows_under_limit\<close>). With a header declared the csv branch counts the header
  line of every partition against the limit and then drops the repeated headers: three
  partitions of header and data rows with \<open>N = 4\<close> give two data rows where four are stored.
\<close>

theorem header_partitions_lose_rows_under_limit:
  "load_data (csv_env (Some ''s3://b/d'') True three_partitions) (MarshalerNode InternalDataNode)
     (PyInt 4) FormatNone False
   = [Log (CheckingExistence ''d'' ''{}''), Pull ''p1'', Pull ''p2'', Pull ''p3'',
      Yield (Frame [[''h''], [''1''], [''2'']])]"
  by (simp add: load_data_def decode_partitions_def csv_branch_def poll_absent_def csv_env_fields
        three_partitions_def plain_csv_reader_def lf_def Let_def csv_finish_def py_slice_to_def)

lemma absent_output_first_yield:
  assumes "output \<noteq> OtherObject" "bound_of output = InternalDataNode" "poll_absent env"
    "limit = PyNone \<or> (isinstance_int limit \<and> 0 < int_value limit)"
    "\<forall>s. format \<noteq> FormatInvalid s"
  shows "\<exists>rest. load_data env output limit format iterate =
           [Log (CheckingExistence (env_data_id env) (env_dimension_values env)),
            Log (OutputAbsent (env_data_id env) (env_dimension_values env)),
            Yield NoneFrame] @ rest"
  using assms by (cases format) (auto simp: load_data_def)

text \<open>
  C7. For an internal node whose output is absent, the generator logs the diagnostic with
  the data id and the dimension values and yields \<^verbatim>\<open>None\<close> (\<open>absent_output_first_yield\<close>), but
  it does not return: a consumer that goes on iterating makes it load and decode, and with
  the pandas format and no partition in the store the run ends with an \<^verbatim>\<open>IndexError\<close>.
\<close>

theorem absent_output_then_index_error:
  "load_data (csv_env None False []) (MarshalerNode InternalDataNode) PyNone (Format PANDAS) False
   = [Log (CheckingExistence ''d'' ''{}''), Log (OutputAbsent ''d'' ''{}''), Yield NoneFrame,
      Raise ListIndexOutOfRange]"
proof -
  let ?env = "csv_env None False [] :: (string list) load_env"
  have absent: "poll_absent ?env"
    by (simp add: poll_absent_def csv_env_fields)
  have "pandas_loop ?env False None (env_data_it ?env) [] 0 = [Raise ListIndexOutOfRange]"
    by (simp add: csv_env_fields pandas_finish_def)
  then have "decode_partitions ?env (limit_of PyNone) (Format PANDAS) False
               = [Raise ListIndexOutOfRange]"
    by (simp add: decode_partitions_def)
  with absent show ?thesis
    by (simp add: load_data_def csv_env_fields)
qed

text \<open>
  C8. A limit that is given and is not a positive integer ends \<^verbatim>\<open>load_data\<close> at once with
  the \<^verbatim>\<open>ValueError\<close> about the limit parameter: nothing is logged, no partition is pulled,
  nothing is yielded. The output argument is a view or a node, as its type says.
\<close>

theorem invalid_limit_rejected:
  assumes "output \<noteq> OtherObject"
    and "limit \<noteq> PyNone"
    and "\<not> isinstance_int limit \<or> int_value limit \<le> 0"
  shows "load_data env output limit format iterate = [Raise InvalidLimit]
         \<and> pulls (load_data env output limit format iterate) = []
         \<and> yields (load_data env output limit format iterate) = []
         \<and> exc_class_of InvalidLimit = ValueError"
  using assms by (simp add: load_data_def)

theorem invalid_limit_rejected_witness:
  "load_data (csv_env (Some ''s3://b/d'') True two_partitions) (MarshalerNode InternalDataNode)
     (PyInt 0) FormatNone False = [Raise InvalidLimit]
   \<and> load_data (csv_env (Some ''s3://b/d'') True two_partitions) (MarshalingView InternalDataNode)
     (PyInt (- 3)) (Format PANDAS) True = [Raise InvalidLimit]
   \<and> load_data (csv_env (Some ''s3://b/d'') True two_partitions) (MarshalerNode ExternalDataNode)
     (PyOther ''2.5'') FormatNone False = [Raise InvalidLimit]"
proof -
  have a: "MarshalerNode InternalDataNode \<noteq> OtherObject" "MarshalingView InternalDataNode \<noteq> OtherObject"
    "MarshalerNode ExternalDataNode \<noteq> OtherObject" by simp_all
  have b: "PyInt 0 \<noteq> PyNone" "PyInt (- 3) \<noteq> PyNone" "PyOther ''2.5'' \<noteq> PyNone" by simp_all
  have c: "\<not> isinstance_int (PyInt 0) \<or> int_value (PyInt 0) \<le> 0"
    "\<not> isinstance_int (PyInt (- 3)) \<or> int_value (PyInt (- 3)) \<le> 0"
    "\<not> isinstance_int (PyOther ''2.5'') \<or> int_value (PyOther ''2.5'') \<le> 0" by simp_all
  from invalid_limit_rejected [OF a(1) b(1) c(1)] invalid_limit_rejected [OF a(2) b(2) c(2)]
       invalid_limit_rejected [OF a(3) b(3) c(3)]
  show ?thesis by blast
qed

section \<open>Properties of the transient load\<close>

text \<open>
  Whatever the session methods do, the session after a started call that has created its
  temporary node is the one the \<^verbatim>\<open>finally\<close> block makes of the session in which the \<^verbatim>\<open>try\<close>
  block was left; a generator that was never started leaves the session untouched.
\<close>

lemma finally_block_on_every_exit:
  assumes "tl_consumer env \<noteq> NeverStarted" and "tl_in_dev_context env"
    and "tl_create_error env = None"
  shows "run_session (load_external_data_glue ops env s0) =
     fst (finally_block ops env (active_context (op_save_dev_state ops s0))
            (op_execute ops (tl_temp_id env) (tl_execute_error env = None)
               (op_create_temp_data ops (tl_temp_id env) (op_save_dev_state ops s0))))"
  using assms
  by (auto simp: load_external_data_glue_def Let_def split: option.splits prod.splits)

lemma never_started_untouched:
  "tl_consumer env = NeverStarted \<Longrightarrow> run_session (load_external_data_glue ops env s0) = s0"
  by (simp add: load_external_data_glue_def)

lemma finally_block_spec:
  assumes "dev_state_slot s = Some d"
  shows "fst (finally_block (spec_session_ops create_effect execute_effect) env active_state s)
         = \<lparr> active_context = active_state, dev_context = d, dev_state_slot = None \<rparr>"
  using assms
  by (cases s) (auto simp: finally_block_def spec_session_ops_def Let_def split: option.splits)

lemma try_block_keeps_snapshot:
  "dev_state_slot
     (op_execute (spec_session_ops create_effect execute_effect) i ok
        (op_create_temp_data (spec_session_ops create_effect execute_effect) i
           (op_save_dev_state (spec_session_ops create_effect execute_effect) s0)))
   = Some (dev_context s0)"
  by (simp add: spec_session_ops_def)

lemma saved_active_context:
  "active_context (op_save_dev_state (spec_session_ops create_effect execute_effect) s0)
   = active_context s0"
  by (simp add: spec_session_ops_def)

text \<open>
  C2. When the temporary node is created, the session after the call is the session before
  the call with the snapshot slot empty, on every way out: the generator is never started,
  the node is not in the development context, the execution fails, the storage iterator
  ends or fails, the consumer closes the generator, the deletion fails or raises. A context
  that was active before is active again, a session that was not activated is not
  activated, the development context is restored. A snapshot that was outstanding before a
  started call is overwritten by the call's own and discarded at the end.
\<close>

theorem transient_load_restores_session:
  assumes created: "tl_create_error env = None"
  shows "run_session (load_external_data_glue (spec_session_ops create_effect execute_effect) env s0)
         = (if tl_consumer env \<noteq> NeverStarted \<and> tl_in_dev_context env
            then s0\<lparr>dev_state_slot := None\<rparr> else s0)"
proof (cases "tl_consumer env \<noteq> NeverStarted \<and> tl_in_dev_context env")
  case False
  then show ?thesis
    by (auto simp: load_external_data_glue_def)
next
  case True
  let ?ops = "spec_session_ops create_effect execute_effect"
  let ?s_try = "op_execute ?ops (tl_temp_id env) (tl_execute_error env = None)
                  (op_create_temp_data ?ops (tl_temp_id env) (op_save_dev_state ?ops s0))"
  from True created have "run_session (load_external_data_glue ?ops env s0)
      = fst (finally_block ?ops env (active_context (op_save_dev_state ?ops s0)) ?s_try)"
    by (simp add: finally_block_on_every_exit)
  also have "\<dots> = \<lparr> active_context = active_context s0, dev_context = dev_context s0,
                      dev_state_slot = None \<rparr>"
    by (simp add: finally_block_spec [OF try_block_keeps_snapshot] saved_active_context)
  also have "\<dots> = s0\<lparr>dev_state_slot := None\<rparr>"
    by (cases s0) simp
  finally show ?thesis using True by simp
qed

theorem transient_load_restores_session_witness:
  "run_session (load_external_data_glue (spec_session_ops add_node launch) smooth_call fresh_session)
     = fresh_session
   \<and> run_session (load_external_data_glue (spec_session_ops add_node launch) smooth_call running_session)
     = running_session
   \<and> run_session (load_external_data_glue (spec_session_ops add_node launch) failing_call running_session)
     = running_session
   \<and> run_session (load_external_data_glue (spec_session_ops add_node launch) closed_call fresh_session)
     = fresh_session"
proof -
  have c: "tl_create_error smooth_call = None" "tl_create_error failing_call = None"
    "tl_create_error closed_call = None"
    by (simp_all add: smooth_call_def failing_call_def closed_call_def)
  have started: "tl_consumer smooth_call \<noteq> NeverStarted \<and> tl_in_dev_context smooth_call"
    "tl_consumer failing_call \<noteq> NeverStarted \<and> tl_in_dev_context failing_call"
    "tl_consumer closed_call \<noteq> NeverStarted \<and> tl_in_dev_context closed_call"
    by (simp_all add: smooth_call_def failing_call_def closed_call_def)
  have slot: "fresh_session\<lparr>dev_state_slot := None\<rparr> = fresh_session"
    "running_session\<lparr>dev_state_slot := None\<rparr> = running_session"
    by (simp_all add: fresh_session_def running_session_def)
  from transient_load_restores_session [OF c(1), of add_node launch fresh_session]
       transient_load_restores_session [OF c(1), of add_node launch running_session]
       transient_load_restores_session [OF c(2), of add_node launch running_session]
       transient_load_restores_session [OF c(3), of add_node launch fresh_session]
  show ?thesis by (simp only: started slot if_True simp_thms)
qed

text \<open>
  The claim as stated fails on a session that holds a snapshot when the call starts: the only
  slot is overwritten and then discarded, so the session after the call has lost it.
\<close>

theorem transient_load_discards_outstanding_snapshot:
  "run_session (load_external_data_glue (spec_session_ops add_node launch) smooth_call snapshot_session)
     = \<lparr> active_context = None, dev_context = [''table''], dev_state_slot = None \<rparr>
   \<and> run_session (load_external_data_glue (spec_session_ops add_node launch) smooth_call snapshot_session)
       \<noteq> snapshot_session"
  by (simp add: load_external_data_glue_def finally_block_def spec_session_ops_def Let_def
      smooth_call_def snapshot_session_def add_node_def launch_def)

end
